theory Spec2Isabelle
  imports Main
begin

section \<open>Python values used by the executor\<close>

text \<open>
  The executor (\<^verbatim>\<open>executor.py\<close>) reads one JSON document, hands two of its fields to the
  built-in \<^verbatim>\<open>exec\<close>, and prints one JSON document. The values that travel through the
  driver are the ones \<^verbatim>\<open>json.loads\<close> can produce. A Python \<^verbatim>\<open>dict\<close> keeps insertion
  order and has distinct keys; it is an association list here. A float keeps its literal,
  since no arithmetic is done on it.
\<close>

datatype json =
    JNull
  | JBool bool
  | JInt int
  | JFloat string
  | JString string
  | JArray "json list"
  | JObject "(string \<times> json) list"

text \<open>\<^verbatim>\<open>type(v).__name__\<close> for such a value.\<close>

fun type_name :: "json \<Rightarrow> string" where
  "type_name JNull = ''NoneType''"
| "type_name (JBool b) = ''bool''"
| "type_name (JInt i) = ''int''"
| "type_name (JFloat f) = ''float''"
| "type_name (JString s) = ''str''"
| "type_name (JArray xs) = ''list''"
| "type_name (JObject kvs) = ''dict''"

subsection \<open>Exceptions\<close>

text \<open>
  An exception carries the method resolution order of its class (the class itself first,
  then every base class) and its text, which is what its own \<^verbatim>\<open>__str__\<close> returns when it
  returns. The classes the source names are constructors; any other class is
  \<open>ClassNamed\<close>.
\<close>

datatype py_class =
    BaseException
  | Exception
  | SyntaxError
  | TimeoutError
  | AssertionError
  | JSONDecodeError
  | ClassNamed string

record exc =
  exc_mro :: "py_class list"
  exc_str :: string

text \<open>\<^verbatim>\<open>isinstance(e, C)\<close> for a class \<open>C\<close>.\<close>

definition isinstance :: "exc \<Rightarrow> py_class \<Rightarrow> bool" where
  "isinstance e c = (c \<in> set (exc_mro e))"

text \<open>
  Exceptions of built-in classes, as the interpreter creates them. \<^verbatim>\<open>TimeoutError\<close> is
  a subclass of \<^verbatim>\<open>OSError\<close>. An \<^verbatim>\<open>assert\<close> statement without a message raises
  \<^verbatim>\<open>AssertionError()\<close>, whose text is empty; \<^verbatim>\<open>assert c, m\<close> raises
  \<^verbatim>\<open>AssertionError(m)\<close>, whose text is \<^verbatim>\<open>str(m)\<close>.
\<close>

definition new_TimeoutError :: "string \<Rightarrow> exc" where
  "new_TimeoutError msg =
     \<lparr>exc_mro = [TimeoutError, ClassNamed ''OSError'', Exception, BaseException],
      exc_str = msg\<rparr>"

definition new_AssertionError :: "string option \<Rightarrow> exc" where
  "new_AssertionError msg =
     \<lparr>exc_mro = [AssertionError, Exception, BaseException],
      exc_str = (case msg of None \<Rightarrow> [] | Some m \<Rightarrow> m)\<rparr>"

definition new_TypeError :: "string \<Rightarrow> exc" where
  "new_TypeError msg =
     \<lparr>exc_mro = [ClassNamed ''TypeError'', Exception, BaseException], exc_str = msg\<rparr>"

definition new_AttributeError :: "string \<Rightarrow> exc" where
  "new_AttributeError msg =
     \<lparr>exc_mro = [ClassNamed ''AttributeError'', Exception, BaseException], exc_str = msg\<rparr>"

subsection \<open>The result\<close>

text \<open>The dictionary \<^verbatim>\<open>result\<close> has five fixed keys.\<close>

record result =
  passed :: bool
  error :: "string option"
  error_type :: "string option"
  "output" :: string
  test_output :: string

text \<open>The dictionary as lines 21 to 27 build it.\<close>

abbreviation initial_result :: result where
  "initial_result \<equiv>
     \<lparr>passed = False, error = None, error_type = None, output = [], test_output = []\<rparr>"

subsection \<open>The state the executor shares with the code it evaluates\<close>

text \<open>
  \<^verbatim>\<open>exec\<close> runs the submitted code inside the executor's own process: the code can reach
  the two capture buffers (they are \<^verbatim>\<open>sys.stdout\<close> and \<^verbatim>\<open>sys.stderr\<close> while it runs),
  the \<^verbatim>\<open>signal\<close> and \<^verbatim>\<open>traceback\<close> modules and the built-in names, and the executor
  uses all of them again after the evaluation. A \<open>world\<close> records, for each of these
  later uses, what it would do now:

  \<^item> \<open>sig_handler\<close>, \<open>sig_alarm\<close>: the handler installed for \<^verbatim>\<open>SIGALRM\<close> (\<open>None\<close>
    is the default action) and the pending alarm in seconds (\<open>None\<close>: none pending);
  \<^item> \<open>hasattr_SIGALRM\<close>: what \<^verbatim>\<open>hasattr(signal, 'SIGALRM')\<close> does (lines 35 and 65);
  \<^item> \<open>signal_signal_error\<close>, \<open>signal_alarm_error\<close>: the exception a call of
    \<^verbatim>\<open>signal.signal\<close>, of \<^verbatim>\<open>signal.alarm\<close>, raises, if it raises;
  \<^item> \<open>with_exit pending\<close>: what leaving the \<^verbatim>\<open>with\<close> block of line 43 does to the
    exception on its way out (\<open>None\<close>: none). The two redirections restore the streams
    and let it pass; once evaluated code has reached them (they are ordinary objects),
    leaving the block may raise or swallow the exception instead;
  \<^item> \<open>stdout_getvalue\<close>, \<open>stderr_getvalue\<close>: what \<^verbatim>\<open>getvalue()\<close> does on each capture
    buffer (lines 50 and 67): it returns the content, or raises (a closed buffer raises
    \<^verbatim>\<open>ValueError\<close>);
  \<^item> \<open>except_test C e\<close>: what the test of the clause \<^verbatim>\<open>except C\<close> does on the exception
    \<open>e\<close>: the name \<open>C\<close> is looked up when the clause is reached, so the test can match,
    not match, or raise;
  \<^item> \<open>py_str e\<close>, \<open>format_exc e\<close>: what \<^verbatim>\<open>str(e)\<close> and \<^verbatim>\<open>traceback.format_exc()\<close> do
    while \<open>e\<close> is handled;
  \<^item> \<open>raise_TimeoutError msg\<close>: the exception that the statement
    \<^verbatim>\<open>raise TimeoutError(msg)\<close> raises (the name is looked up when it runs);
  \<^item> \<open>exec_builtin\<close>: the name \<^verbatim>\<open>exec\<close> still names the built-in function (line 47
    looks it up again, after \<open>code\<close> has run).
\<close>

datatype handler =
    Timeout_handler
  | Other_handler string

record world =
  sig_handler :: "handler option"
  sig_alarm :: "nat option"
  hasattr_SIGALRM :: "exc + bool"
  signal_signal_error :: "exc option"
  signal_alarm_error :: "exc option"
  with_exit :: "exc option \<Rightarrow> exc option"
  stdout_getvalue :: "exc + string"
  stderr_getvalue :: "exc + string"
  except_test :: "py_class \<Rightarrow> exc \<Rightarrow> exc + bool"
  py_str :: "exc \<Rightarrow> exc + string"
  format_exc :: "exc \<Rightarrow> exc + string"
  raise_TimeoutError :: "string \<Rightarrow> exc"
  exec_builtin :: bool

definition SIGALRM :: nat where
  "SIGALRM = 14"

text \<open>
  The four clause tests on an exception are those of the built-in classes: this holds
  when the process starts, and until evaluated code rebinds one of the names.
\<close>

definition builtin_clauses :: "world \<Rightarrow> exc \<Rightarrow> bool" where
  "builtin_clauses w e =
     (except_test w SyntaxError e = Inr (isinstance e SyntaxError) \<and>
      except_test w TimeoutError e = Inr (isinstance e TimeoutError) \<and>
      except_test w AssertionError e = Inr (isinstance e AssertionError) \<and>
      except_test w Exception e = Inr (isinstance e Exception))"

subsection \<open>The interpreter\<close>

text \<open>
  \<^verbatim>\<open>exec\<close> and \<^verbatim>\<open>json.loads\<close> belong to the Python runtime, not to the repository: the
  executor is verified for every runtime, taken as a parameter. An evaluation (a \<open>run\<close>)
  may be interrupted by the alarm, leaves a world, and ends in one of three ways: it
  returns with the namespace it leaves, it raises, or it never gives control back (an
  endless loop, or the process killed). All it did to the shared state, writing to the
  capture buffers included, is in the world it leaves. It can also reach the dictionary
  \<^verbatim>\<open>result\<close> of the executor (through the frame of \<^verbatim>\<open>execute_code\<close>) and change what
  its keys hold: \<open>result_after\<close> is what it makes of the dictionary.
\<close>

type_synonym 'v namespace = "string \<rightharpoonup> 'v"

datatype 'v ending =
    Returned "'v namespace"
  | Raised exc
  | NoReturn

record 'v run =
  alarm_fired :: bool
  world_after :: world
  result_after :: "result \<Rightarrow> result"
  ending :: "'v ending"

text \<open>
  The alarm is armed on line 37 and disarmed on line 66, so it can also go off while the
  executor runs its own statements, outside the two evaluations. These are the places
  where that makes a difference.
\<close>

datatype point =
    Before_code
  | Before_test
  | After_test
  | After_passed
  | After_output
  | In_clause
  | In_finally

text \<open>
  \<open>builtins\<close> is \<^verbatim>\<open>__builtins__\<close>; \<open>py_compile\<close> parses a source text into a code
  object or raises; \<open>py_eval\<close> runs a code object in a namespace and a world;
  \<open>json_loads\<close> is \<^verbatim>\<open>json.loads\<close> on a text. \<open>late_alarm pt w\<close> tells whether the
  alarm pending in \<open>w\<close> goes off while the executor is at \<open>pt\<close> (this depends on the
  clock); \<open>foreign_handler h w\<close> is what a handler that the evaluated code installed
  does when it runs: it raises or it returns; \<open>other_exec\<close> is what a call of
  \<^verbatim>\<open>exec\<close> does once the evaluated code has bound that name to something else.
\<close>

record ('v, 'p) python =
  builtins :: 'v
  py_compile :: "string \<Rightarrow> exc + 'p"
  py_eval :: "'p \<Rightarrow> 'v namespace \<Rightarrow> world \<Rightarrow> 'v run"
  json_loads :: "string \<Rightarrow> exc + json"
  late_alarm :: "point \<Rightarrow> world \<Rightarrow> bool"
  foreign_handler :: "string \<Rightarrow> world \<Rightarrow> exc option \<times> world"
  other_exec :: "json \<Rightarrow> 'v namespace \<Rightarrow> world \<Rightarrow> 'v run"

text \<open>
  The built-in \<^verbatim>\<open>exec(source, namespace)\<close>: a string is parsed and then run; a parse
  failure raises before anything runs. A value that is neither a string, bytes nor a code
  object is a \<^verbatim>\<open>TypeError\<close> (the driver can pass any JSON value).
\<close>

definition raised_at_once :: "exc \<Rightarrow> world \<Rightarrow> 'v run" where
  "raised_at_once e w =
     \<lparr>alarm_fired = False, world_after = w, result_after = (\<lambda>r. r), ending = Raised e\<rparr>"

definition py_exec ::
  "('v, 'p) python \<Rightarrow> json \<Rightarrow> 'v namespace \<Rightarrow> world \<Rightarrow> 'v run" where
  "py_exec py source ns w =
     (if \<not> exec_builtin w then other_exec py source ns w
      else
        (case source of
           JString text \<Rightarrow>
             (case py_compile py text of
                Inl e \<Rightarrow> raised_at_once e w
              | Inr p \<Rightarrow> py_eval py p ns w)
         | _ \<Rightarrow>
             raised_at_once
               (new_TypeError ''exec() arg 1 must be a string, bytes or code object'') w))"

section \<open>The executor\<close>

definition TIMEOUT_SECONDS :: nat where
  "TIMEOUT_SECONDS = 30"

text \<open>
  \<^verbatim>\<open>def timeout_handler(signum, frame): raise TimeoutError("Execution timed out")\<close>, in
  the world in which the signal arrives. The handler always raises.
\<close>

definition timeout_handler :: "world \<Rightarrow> nat \<Rightarrow> unit \<Rightarrow> exc" where
  "timeout_handler w signum frame = raise_TimeoutError w ''Execution timed out''"

text \<open>
  The executor at a place \<open>pt\<close>: when the pending alarm goes off there, the installed
  handler runs in the executor's own frame and the alarm is spent. The default action
  ends the process (\<open>None\<close>); otherwise the value is the exception the handler raised,
  if any, and the world.
\<close>

definition interrupt ::
  "('v, 'p) python \<Rightarrow> point \<Rightarrow> world \<Rightarrow> (exc option \<times> world) option" where
  "interrupt py pt w =
     (if late_alarm py pt w then
        (case sig_alarm w of
           None \<Rightarrow> Some (None, w)
         | Some n \<Rightarrow>
             (case sig_handler w of
                None \<Rightarrow> None
              | Some Timeout_handler \<Rightarrow>
                  Some (Some (timeout_handler w SIGALRM ()), w\<lparr>sig_alarm := None\<rparr>)
              | Some (Other_handler h) \<Rightarrow>
                  Some (foreign_handler py h (w\<lparr>sig_alarm := None\<rparr>))))
      else Some (None, w))"

text \<open>
  Passing a place: the process ends, or the exception of the handler is raised there
  (\<open>on_raise\<close>), or the executor goes on (\<open>go_on\<close>).
\<close>

definition at_point ::
  "('v, 'p) python \<Rightarrow> point \<Rightarrow> world \<Rightarrow> (exc \<Rightarrow> world \<Rightarrow> 'a option) \<Rightarrow>
     (world \<Rightarrow> 'a option) \<Rightarrow> 'a option" where
  "at_point py pt w on_raise go_on =
     (case interrupt py pt w of
        None \<Rightarrow> None
      | Some (Some e, w') \<Rightarrow> on_raise e w'
      | Some (None, w') \<Rightarrow> go_on w')"

text \<open>
  A runtime fixes the timing of a run. In this one the alarm never goes off while the
  executor runs its own statements: it goes off inside an evaluation or not at all.
\<close>

definition no_late_alarm :: "('v, 'p) python \<Rightarrow> bool" where
  "no_late_alarm py = (late_alarm py = (\<lambda>pt w. False))"

text \<open>A call either returns a value or lets an exception escape to its caller.\<close>

datatype 'a exit =
    Return 'a
  | Propagate exc

text \<open>Lines 30 and 31: two new, empty \<^verbatim>\<open>StringIO\<close> buffers.\<close>

definition new_buffers :: "world \<Rightarrow> world" where
  "new_buffers w = w\<lparr>stdout_getvalue := Inr [], stderr_getvalue := Inr []\<rparr>"

text \<open>
  Lines 35 to 37, inside the \<^verbatim>\<open>try\<close>: where the \<^verbatim>\<open>signal\<close> module has \<^verbatim>\<open>SIGALRM\<close>,
  install the handler and arm the alarm. The value is the exception raised on the way,
  if any, and the world.
\<close>

definition set_timeout :: "world \<Rightarrow> exc option \<times> world" where
  "set_timeout w =
     (case hasattr_SIGALRM w of
        Inl e \<Rightarrow> (Some e, w)
      | Inr False \<Rightarrow> (None, w)
      | Inr True \<Rightarrow>
          (case signal_signal_error w of
             Some e \<Rightarrow> (Some e, w)
           | None \<Rightarrow>
               (case signal_alarm_error w of
                  Some e \<Rightarrow> (Some e, w\<lparr>sig_handler := Some Timeout_handler\<rparr>)
                | None \<Rightarrow>
                    (None, w\<lparr>sig_handler := Some Timeout_handler,
                              sig_alarm := Some TIMEOUT_SECONDS\<rparr>))))"

text \<open>
  Lines 65 and 66, inside the \<^verbatim>\<open>finally\<close>: the attribute is looked up again, in the
  world the evaluation left, and the alarm is disarmed where it is found.
\<close>

definition clear_timeout :: "world \<Rightarrow> exc option \<times> world" where
  "clear_timeout w =
     (case hasattr_SIGALRM w of
        Inl e \<Rightarrow> (Some e, w)
      | Inr False \<Rightarrow> (None, w)
      | Inr True \<Rightarrow>
          (case signal_alarm_error w of
             Some e \<Rightarrow> (Some e, w)
           | None \<Rightarrow> (None, w\<lparr>sig_alarm := None\<rparr>)))"

text \<open>Line 40: \<^verbatim>\<open>namespace = {"__builtins__": __builtins__}\<close>.\<close>

definition fresh_namespace :: "('v, 'p) python \<Rightarrow> 'v namespace" where
  "fresh_namespace py = [''__builtins__'' \<mapsto> builtins py]"

text \<open>
  Lines 43 to 47, the \<^verbatim>\<open>with\<close> block: both streams are redirected into the two buffers,
  \<^verbatim>\<open>code\<close> is evaluated, then \<^verbatim>\<open>test_code\<close> in the same namespace, and the block is
  left, with an exception on its way out or without. The block yields the exception that
  left it (if any), the dictionary as the evaluations left it and the world, or \<open>None\<close>
  when control never comes back.
\<close>

definition with_block ::
  "('v, 'p) python \<Rightarrow> json \<Rightarrow> json \<Rightarrow> 'v namespace \<Rightarrow> result \<Rightarrow> world \<Rightarrow>
     (exc option \<times> result \<times> world) option" where
  "with_block py code test_code namespace result w =
     (let r1 = py_exec py code namespace w;
          result = result_after r1 result
      in case ending r1 of
           NoReturn \<Rightarrow> None
         | Raised e \<Rightarrow>
             Some (with_exit (world_after r1) (Some e), result, world_after r1)
         | Returned ns1 \<Rightarrow>
             at_point py Before_test (world_after r1)
               (\<lambda>e w'. Some (with_exit w' (Some e), result, w'))
               (\<lambda>w'. let r2 = py_exec py test_code ns1 w';
                         result = result_after r2 result
                     in case ending r2 of
                          NoReturn \<Rightarrow> None
                        | Raised e \<Rightarrow>
                            Some (with_exit (world_after r2) (Some e), result,
                                  world_after r2)
                        | Returned ns2 \<Rightarrow>
                            Some (with_exit (world_after r2) None, result,
                                  world_after r2)))"

text \<open>
  Lines 33 to 50, the suite of the \<^verbatim>\<open>try\<close>. It yields the exception that left it (if
  any), the dictionary as it stands and the world. Line 49 sets \<^verbatim>\<open>passed\<close> before line 50
  reads the buffer, so an exception raised from line 50 on leaves \<^verbatim>\<open>passed\<close> set.
\<close>

definition try_suite ::
  "('v, 'p) python \<Rightarrow> json \<Rightarrow> json \<Rightarrow> result \<Rightarrow> world \<Rightarrow>
     (exc option \<times> result \<times> world) option" where
  "try_suite py code test_code result w =
     (case set_timeout w of
        (Some e, w1) \<Rightarrow> Some (Some e, result, w1)
      | (None, w1) \<Rightarrow>
          at_point py Before_code w1 (\<lambda>e w'. Some (Some e, result, w'))
            (\<lambda>w1.
               let namespace = fresh_namespace py in
               case with_block py code test_code namespace result w1 of
                 None \<Rightarrow> None
               | Some (Some e, result, w2) \<Rightarrow> Some (Some e, result, w2)
               | Some (None, result, w2) \<Rightarrow>
                   at_point py After_test w2 (\<lambda>e w'. Some (Some e, result, w'))
                     (\<lambda>w2.
                        let result = result\<lparr>passed := True\<rparr> in
                        at_point py After_passed w2 (\<lambda>e w'. Some (Some e, result, w'))
                          (\<lambda>w2.
                             case stdout_getvalue w2 of
                               Inl e \<Rightarrow> Some (Some e, result, w2)
                             | Inr text \<Rightarrow>
                                 (let result = result\<lparr>output := text\<rparr> in
                                  at_point py After_output w2
                                    (\<lambda>e w'. Some (Some e, result, w'))
                                    (\<lambda>w2. Some (None, result, w2)))))))"

text \<open>
  Lines 52 to 63, the \<^verbatim>\<open>except\<close> clauses in their order, in the world the suite left.
  The first clause whose test matches handles the exception; an exception that no clause
  matches escapes. An exception raised by a test, by \<^verbatim>\<open>str(e)\<close> or by
  \<^verbatim>\<open>traceback.format_exc()\<close> escapes too, and the dictionary is not updated.
  \<^verbatim>\<open>str(e) or "Assertion failed"\<close> takes the right operand when \<^verbatim>\<open>str(e)\<close> is empty.
\<close>

definition except_clauses :: "world \<Rightarrow> exc \<Rightarrow> result \<Rightarrow> result exit" where
  "except_clauses w e result =
     (case except_test w SyntaxError e of
        Inl x \<Rightarrow> Propagate x
      | Inr True \<Rightarrow>
          (case py_str w e of
             Inl x \<Rightarrow> Propagate x
           | Inr s \<Rightarrow> Return (result\<lparr>error := Some s, error_type := Some ''syntax''\<rparr>))
      | Inr False \<Rightarrow>
     (case except_test w TimeoutError e of
        Inl x \<Rightarrow> Propagate x
      | Inr True \<Rightarrow>
          (case py_str w e of
             Inl x \<Rightarrow> Propagate x
           | Inr s \<Rightarrow> Return (result\<lparr>error := Some s, error_type := Some ''timeout''\<rparr>))
      | Inr False \<Rightarrow>
     (case except_test w AssertionError e of
        Inl x \<Rightarrow> Propagate x
      | Inr True \<Rightarrow>
          (case py_str w e of
             Inl x \<Rightarrow> Propagate x
           | Inr s \<Rightarrow>
               Return (result\<lparr>error := Some (if s = [] then ''Assertion failed'' else s),
                              error_type := Some ''assertion''\<rparr>))
      | Inr False \<Rightarrow>
     (case except_test w Exception e of
        Inl x \<Rightarrow> Propagate x
      | Inr True \<Rightarrow>
          (case format_exc w e of
             Inl x \<Rightarrow> Propagate x
           | Inr s \<Rightarrow> Return (result\<lparr>error := Some s, error_type := Some ''runtime''\<rparr>))
      | Inr False \<Rightarrow> Propagate e))))"

text \<open>
  Lines 64 to 67, the \<^verbatim>\<open>finally\<close> clause, run on every way out of the \<^verbatim>\<open>try\<close>
  statement. An exception raised here replaces what was on its way out: no dictionary is
  returned then.
\<close>

definition finally_clause :: "world \<Rightarrow> result exit \<Rightarrow> result exit \<times> world" where
  "finally_clause w pending =
     (case clear_timeout w of
        (Some e, w') \<Rightarrow> (Propagate e, w')
      | (None, w') \<Rightarrow>
          (case stderr_getvalue w' of
             Inl e \<Rightarrow> (Propagate e, w')
           | Inr text \<Rightarrow>
               (case pending of
                  Return r \<Rightarrow> (Return (r\<lparr>test_output := text\<rparr>), w')
                | Propagate e \<Rightarrow> (Propagate e, w'))))"

text \<open>
  \<^verbatim>\<open>execute_code\<close>, lines 19 to 69. The result is \<open>None\<close> when the call never returns;
  otherwise it is the returned dictionary, or the exception that escapes, with the world
  the call leaves. An alarm that goes off inside an \<^verbatim>\<open>except\<close> clause or inside the
  \<^verbatim>\<open>finally\<close> clause raises there and escapes.
\<close>

definition run_finally ::
  "('v, 'p) python \<Rightarrow> result exit \<Rightarrow> world \<Rightarrow> (result exit \<times> world) option" where
  "run_finally py pending w =
     at_point py In_finally w (\<lambda>x w'. Some (Propagate x, w'))
       (\<lambda>w'. Some (finally_clause w' pending))"

definition execute_code ::
  "('v, 'p) python \<Rightarrow> json \<Rightarrow> json \<Rightarrow> world \<Rightarrow> (result exit \<times> world) option" where
  "execute_code py code test_code w0 =
     (let result = \<lparr>passed = False, error = None, error_type = None,
                    output = [], test_output = []\<rparr>;
          w1 = new_buffers w0
      in case try_suite py code test_code result w1 of
           None \<Rightarrow> None
         | Some (None, result', w2) \<Rightarrow> run_finally py (Return result') w2
         | Some (Some e, result', w2) \<Rightarrow>
             at_point py In_clause w2 (\<lambda>x w'. run_finally py (Propagate x) w')
               (\<lambda>w'. run_finally py (except_clauses w' e result') w'))"

section \<open>The request/response driver\<close>

definition quoted :: "string \<Rightarrow> string" where
  "quoted s = [CHR 0x27] @ s @ [CHR 0x27]"

text \<open>
  \<^verbatim>\<open>input_data.get(key, default)\<close>: only a \<^verbatim>\<open>dict\<close> has the method; on any other value
  the attribute lookup raises \<^verbatim>\<open>AttributeError\<close>.
\<close>

definition py_get :: "json \<Rightarrow> string \<Rightarrow> json \<Rightarrow> exc + json" where
  "py_get v key dflt =
     (case v of
        JObject kvs \<Rightarrow> Inr (case map_of kvs key of None \<Rightarrow> dflt | Some x \<Rightarrow> x)
      | _ \<Rightarrow>
          Inl (new_AttributeError
                 (quoted (type_name v) @ '' object has no attribute '' @ quoted ''get'')))"

text \<open>The dictionary handed to \<^verbatim>\<open>json.dumps\<close> on line 79.\<close>

definition json_of_option :: "string option \<Rightarrow> json" where
  "json_of_option x = (case x of None \<Rightarrow> JNull | Some s \<Rightarrow> JString s)"

definition result_dict :: "result \<Rightarrow> json" where
  "result_dict r =
     JObject [(''passed'', JBool (passed r)),
              (''error'', json_of_option (error r)),
              (''error_type'', json_of_option (error_type r)),
              (''output'', JString (output r)),
              (''test_output'', JString (test_output r))]"

text \<open>
  Lines 81 to 92, the \<^verbatim>\<open>except\<close> clauses of \<^verbatim>\<open>main\<close>. What the process prints is kept as
  the list of JSON documents passed to \<^verbatim>\<open>print(json.dumps(...))\<close>.
\<close>

definition main_except :: "exc \<Rightarrow> json list \<times> unit exit" where
  "main_except e =
     (if isinstance e JSONDecodeError then
        ([JObject [(''passed'', JBool False),
                   (''error'', JString (''Invalid JSON input: '' @ exc_str e)),
                   (''error_type'', JString ''input'')]],
         Return ())
      else if isinstance e Exception then
        ([JObject [(''passed'', JBool False),
                   (''error'', JString (exc_str e)),
                   (''error_type'', JString ''executor'')]],
         Return ())
      else ([], Propagate e))"

text \<open>
  \<^verbatim>\<open>main\<close>, lines 71 to 92, on the text \<^verbatim>\<open>sys.stdin.read()\<close> returns and the state
  of the process. The value is what was printed and how \<^verbatim>\<open>main\<close> ended, or
  \<open>None\<close> when it never ends.
\<close>

definition main ::
  "('v, 'p) python \<Rightarrow> string \<Rightarrow> world \<Rightarrow> (json list \<times> unit exit) option" where
  "main py stdin s0 =
     (case json_loads py stdin of
        Inl e \<Rightarrow> Some (main_except e)
      | Inr input_data \<Rightarrow>
          (case py_get input_data ''code'' (JString []) of
             Inl e \<Rightarrow> Some (main_except e)
           | Inr code \<Rightarrow>
               (case py_get input_data ''test'' (JString []) of
                  Inl e \<Rightarrow> Some (main_except e)
                | Inr test_code \<Rightarrow>
                    (case execute_code py code test_code s0 of
                       None \<Rightarrow> None
                     | Some (Propagate e, s) \<Rightarrow> Some (main_except e)
                     | Some (Return result, s) \<Rightarrow>
                         Some ([result_dict result], Return ())))))"

section \<open>The specification's words\<close>

text \<open>
  The table of section 4.1 of the specification, in its order: the first category the
  exception matches gives the tag. The last row is the class \<^verbatim>\<open>Exception\<close>, which is
  what the source catches there.
\<close>

definition error_categories :: "(py_class \<times> string) list" where
  "error_categories =
     [(SyntaxError, ''syntax''), (TimeoutError, ''timeout''),
      (AssertionError, ''assertion''), (Exception, ''runtime'')]"

fun first_match :: "exc \<Rightarrow> (py_class \<times> string) list \<Rightarrow> string option" where
  "first_match e [] = None"
| "first_match e ((c, tag) # rest) = (if isinstance e c then Some tag else first_match e rest)"

text \<open>
  Well-formed JSON, after the grammar of RFC 8259: \<^verbatim>\<open>JSON-text = ws value ws\<close>. Each
  function takes the text that is left and returns what follows the phrase it recognises,
  or \<open>None\<close>. The first argument of \<open>json_value\<close>, \<open>json_elements\<close> and
  \<open>json_members\<close> bounds the depth of the calls; twice the length of the text is enough.
\<close>

definition json_ws :: "char \<Rightarrow> bool" where
  "json_ws c = (c = CHR 0x20 \<or> c = CHR 0x09 \<or> c = CHR 0x0A \<or> c = CHR 0x0D)"

definition is_digit :: "char \<Rightarrow> bool" where
  "is_digit c = (48 \<le> (of_char c :: nat) \<and> (of_char c :: nat) \<le> 57)"

definition is_hex :: "char \<Rightarrow> bool" where
  "is_hex c =
     (is_digit c \<or> (65 \<le> (of_char c :: nat) \<and> (of_char c :: nat) \<le> 70) \<or>
      (97 \<le> (of_char c :: nat) \<and> (of_char c :: nat) \<le> 102))"

text \<open>\<^verbatim>\<open>frac = decimal-point 1*DIGIT\<close> and \<^verbatim>\<open>exp = e [ minus / plus ] 1*DIGIT\<close>, both optional.\<close>

definition json_digits1 :: "string \<Rightarrow> string option" where
  "json_digits1 s =
     (case s of
        [] \<Rightarrow> None
      | d # r \<Rightarrow> if is_digit d then Some (dropWhile is_digit r) else None)"

definition json_frac :: "string \<Rightarrow> string option" where
  "json_frac s =
     (case s of
        [] \<Rightarrow> Some s
      | c # r \<Rightarrow> if c = CHR ''.'' then json_digits1 r else Some s)"

definition json_exp :: "string \<Rightarrow> string option" where
  "json_exp s =
     (case s of
        [] \<Rightarrow> Some s
      | c # r \<Rightarrow>
          if c = CHR ''e'' \<or> c = CHR ''E'' then
            (case r of
               [] \<Rightarrow> None
             | g # r' \<Rightarrow> if g = CHR ''-'' \<or> g = CHR ''+'' then json_digits1 r'
                         else json_digits1 r)
          else Some s)"

text \<open>\<^verbatim>\<open>number = [ minus ] int [ frac ] [ exp ]\<close>, \<^verbatim>\<open>int = zero / ( digit1-9 *DIGIT )\<close>.\<close>

definition json_number :: "string \<Rightarrow> string option" where
  "json_number s =
     (let s1 = (case s of [] \<Rightarrow> s | c # r \<Rightarrow> if c = CHR ''-'' then r else s) in
      case s1 of
        [] \<Rightarrow> None
      | d # r \<Rightarrow>
          if \<not> is_digit d then None
          else (case json_frac (if d = CHR ''0'' then r else dropWhile is_digit r) of
                  None \<Rightarrow> None
                | Some s2 \<Rightarrow> json_exp s2))"

text \<open>
  The characters of a string after its opening quotation mark, up to the closing one. The
  first argument counts the hexadecimal digits still due after \<^verbatim>\<open>\u\<close>.
\<close>

fun json_chars :: "nat \<Rightarrow> string \<Rightarrow> string option" where
  "json_chars k [] = None"
| "json_chars k (c # r) =
     (if 0 < k then (if is_hex c then json_chars (k - 1) r else None)
      else if c = CHR 0x22 then Some r
      else if c = CHR 0x5C then
        (case r of
           [] \<Rightarrow> None
         | d # r' \<Rightarrow>
             if d \<in> set [CHR 0x22, CHR 0x5C, CHR ''/'', CHR ''b'', CHR ''f'', CHR ''n'',
                          CHR ''r'', CHR ''t'']
             then json_chars 0 r'
             else if d = CHR ''u'' then json_chars 4 r' else None)
      else if (of_char c :: nat) < 32 then None
      else json_chars 0 r)"

fun json_value :: "nat \<Rightarrow> string \<Rightarrow> string option"
  and json_elements :: "nat \<Rightarrow> string \<Rightarrow> string option"
  and json_members :: "nat \<Rightarrow> string \<Rightarrow> string option" where
  "json_value 0 s = None"
| "json_value (Suc n) s =
     (if take 4 s = ''null'' then Some (drop 4 s)
      else if take 4 s = ''true'' then Some (drop 4 s)
      else if take 5 s = ''false'' then Some (drop 5 s)
      else (case s of
              [] \<Rightarrow> None
            | c # r \<Rightarrow>
                if c = CHR 0x22 then json_chars 0 r
                else if c = CHR ''['' then
                  (case dropWhile json_ws r of
                     [] \<Rightarrow> None
                   | d # r' \<Rightarrow> if d = CHR '']'' then Some r' else json_elements n (d # r'))
                else if c = CHR ''{'' then
                  (case dropWhile json_ws r of
                     [] \<Rightarrow> None
                   | d # r' \<Rightarrow> if d = CHR ''}'' then Some r' else json_members n (d # r'))
                else json_number s))"
| "json_elements 0 s = None"
| "json_elements (Suc n) s =
     (case json_value n s of
        None \<Rightarrow> None
      | Some r \<Rightarrow>
          (case dropWhile json_ws r of
             [] \<Rightarrow> None
           | d # r' \<Rightarrow>
               if d = CHR '','' then json_elements n (dropWhile json_ws r')
               else if d = CHR '']'' then Some r' else None))"
| "json_members 0 s = None"
| "json_members (Suc n) s =
     (case s of
        [] \<Rightarrow> None
      | c # r \<Rightarrow>
          if c \<noteq> CHR 0x22 then None
          else (case json_chars 0 r of
                  None \<Rightarrow> None
                | Some r1 \<Rightarrow>
                    (case dropWhile json_ws r1 of
                       [] \<Rightarrow> None
                     | d # r2 \<Rightarrow>
                         if d \<noteq> CHR '':'' then None
                         else (case json_value n (dropWhile json_ws r2) of
                                 None \<Rightarrow> None
                               | Some r3 \<Rightarrow>
                                   (case dropWhile json_ws r3 of
                                      [] \<Rightarrow> None
                                    | g # r4 \<Rightarrow>
                                        if g = CHR '','' then
                                          json_members n (dropWhile json_ws r4)
                                        else if g = CHR ''}'' then Some r4 else None)))))"

definition well_formed_json :: "string \<Rightarrow> bool" where
  "well_formed_json s =
     (case json_value (2 * length s + 2) (dropWhile json_ws s) of
        None \<Rightarrow> False
      | Some r \<Rightarrow> dropWhile json_ws r = [])"

section \<open>A sample runtime\<close>

text \<open>
  To evaluate the executor on concrete requests, a table of what CPython 3.11 does on a
  few source texts. A code object is identified with its source text. Texts outside the
  table get an arbitrary answer (a syntax error); nothing below uses it. In the table the
  alarm goes off inside an evaluation or not at all, no foreign handler is installed,
  and the only function that \<^verbatim>\<open>exec\<close> is rebound to does nothing and returns.
\<close>

datatype obj =
    IntObj int
  | ModuleObj string

definition newline :: string where
  "newline = [CHR 0x0A]"

definition new_SyntaxError :: "string \<Rightarrow> exc" where
  "new_SyntaxError msg = \<lparr>exc_mro = [SyntaxError, Exception, BaseException], exc_str = msg\<rparr>"

definition new_ZeroDivisionError :: exc where
  "new_ZeroDivisionError =
     \<lparr>exc_mro = [ClassNamed ''ZeroDivisionError'', ClassNamed ''ArithmeticError'',
                 Exception, BaseException],
      exc_str = ''division by zero''\<rparr>"

definition new_SystemExit :: exc where
  "new_SystemExit = \<lparr>exc_mro = [ClassNamed ''SystemExit'', BaseException], exc_str = []\<rparr>"

definition new_NameError :: "string \<Rightarrow> exc" where
  "new_NameError name =
     \<lparr>exc_mro = [ClassNamed ''NameError'', Exception, BaseException],
      exc_str = ''name '' @ quoted name @ '' is not defined''\<rparr>"

definition new_ValueError :: "string \<Rightarrow> exc" where
  "new_ValueError msg =
     \<lparr>exc_mro = [ClassNamed ''ValueError'', Exception, BaseException], exc_str = msg\<rparr>"

text \<open>What \<^verbatim>\<open>pop()\<close> raises on an empty list.\<close>

definition new_IndexError :: exc where
  "new_IndexError =
     \<lparr>exc_mro = [ClassNamed ''IndexError'', ClassNamed ''LookupError'', Exception,
                 BaseException],
      exc_str = ''pop from empty list''\<rparr>"

text \<open>What every operation on a closed \<^verbatim>\<open>StringIO\<close> raises.\<close>

definition closed_file :: exc where
  "closed_file = new_ValueError ''I/O operation on closed file''"

text \<open>An instance of \<^verbatim>\<open>class E(AssertionError, TimeoutError): pass\<close>, created as \<^verbatim>\<open>E()\<close>.\<close>

definition new_E :: exc where
  "new_E =
     \<lparr>exc_mro = [ClassNamed ''E'', AssertionError, TimeoutError, ClassNamed ''OSError'',
                 Exception, BaseException],
      exc_str = []\<rparr>"

text \<open>
  An instance of a subclass \<^verbatim>\<open>Bad\<close> of \<^verbatim>\<open>SyntaxError\<close> whose \<^verbatim>\<open>__str__\<close> raises
  \<^verbatim>\<open>ValueError("no")\<close>: it has no text of its own.
\<close>

definition new_Bad :: exc where
  "new_Bad =
     \<lparr>exc_mro = [ClassNamed ''Bad'', SyntaxError, Exception, BaseException], exc_str = []\<rparr>"

definition new_JSONDecodeError :: "string \<Rightarrow> exc" where
  "new_JSONDecodeError msg =
     \<lparr>exc_mro = [JSONDecodeError, ClassNamed ''ValueError'', Exception, BaseException],
      exc_str = msg\<rparr>"

text \<open>The source texts of the table.\<close>

definition src_print1 :: string where "src_print1 = ''print(1)''"
definition src_print2 :: string where "src_print2 = ''print(2)''"
definition src_assign :: string where "src_assign = ''x = 1''"
definition src_assert1 :: string where "src_assert1 = ''assert x == 1''"
definition src_assert2 :: string where "src_assert2 = ''assert x == 2''"
definition src_assert2_msg :: string where \<open>src_assert2_msg = ''assert x == 2, "bad x"''\<close>
definition src_assert2_empty :: string where \<open>src_assert2_empty = ''assert x == 2, ""''\<close>
definition src_div0 :: string where "src_div0 = ''1/0''"
definition src_warn_div0 :: string where
  \<open>src_warn_div0 = ''import sys; sys.stderr.write("warn"); 1/0''\<close>
definition src_exit :: string where "src_exit = ''raise SystemExit''"
definition src_raise_syntax :: string where \<open>src_raise_syntax = ''raise SyntaxError("boom")''\<close>
definition src_raise_E :: string where
  "src_raise_E = ''class E(AssertionError, TimeoutError): pass'' @ newline @ ''raise E()''"
definition src_raise_Bad :: string where
  \<open>src_raise_Bad =
     ''class Bad(SyntaxError):'' @ newline @ ''    def __str__(self):'' @ newline @
     ''        raise ValueError("no")'' @ newline @ ''raise Bad()''\<close>
definition src_loop :: string where "src_loop = ''while True: pass''"
definition src_guarded_loop :: string where
  "src_guarded_loop =
     ''try:'' @ newline @ ''    while True:'' @ newline @ ''        x = 1'' @ newline @
     ''except TimeoutError:'' @ newline @ ''    pass''"
definition src_close_stdout :: string where
  "src_close_stdout = ''import sys; sys.stdout.close()''"
definition src_close_stderr_div0 :: string where
  "src_close_stderr_div0 = ''import sys; sys.stderr.close(); 1/0''"
definition src_truncate :: string where
  "src_truncate = ''import sys; sys.stdout.seek(0); sys.stdout.truncate()''"
definition src_rebind :: string where
  "src_rebind = ''import builtins; builtins.AssertionError = KeyError; x = 1''"
definition src_set_error_type :: string where
  "src_set_error_type =
     ''import sys; sys._getframe(1).f_locals['' @ quoted ''result'' @ '']['' @
     quoted ''error_type'' @ ''] = '' @ quoted ''custom''"
definition src_break_exit :: string where
  "src_break_exit =
     ''import gc, contextlib; [o._old_targets.clear() for o in gc.get_objects() '' @
     ''if type(o) is contextlib.redirect_stdout]''"
definition src_rebind_exec :: string where
  "src_rebind_exec = ''import builtins; builtins.exec = lambda *a: None''"
definition src_unclosed :: string where "src_unclosed = ''(''"

definition sample_sources :: "string list" where
  "sample_sources =
     [] # [src_print1, src_print2, src_assign, src_assert1, src_assert2, src_assert2_msg,
      src_assert2_empty, src_div0, src_warn_div0, src_exit, src_raise_syntax, src_raise_E,
      src_raise_Bad, src_loop, src_guarded_loop, src_close_stdout, src_close_stderr_div0,
      src_truncate, src_rebind, src_set_error_type, src_break_exit, src_rebind_exec]"

definition sample_compile :: "string \<Rightarrow> exc + string" where
  "sample_compile text =
     (if text \<in> set sample_sources then Inr text
      else if text = src_unclosed
        then Inl (new_SyntaxError (quoted ''('' @ '' was never closed (<string>, line 1)''))
      else Inl (new_SyntaxError ''invalid syntax (<string>, line 1)''))"

definition finished :: "world \<Rightarrow> 'v ending \<Rightarrow> 'v run" where
  "finished w e =
     \<lparr>alarm_fired = False, world_after = w, result_after = (\<lambda>r. r), ending = e\<rparr>"

text \<open>
  Writing a text to a stream that is one of the capture buffers: the text is appended to
  the content, and a closed buffer raises.
\<close>

definition write_stdout :: "string \<Rightarrow> world \<Rightarrow> 'v namespace \<Rightarrow> 'v run" where
  "write_stdout text w ns =
     (case stdout_getvalue w of
        Inl e \<Rightarrow> finished w (Raised e)
      | Inr content \<Rightarrow> finished (w\<lparr>stdout_getvalue := Inr (content @ text)\<rparr>) (Returned ns))"

definition write_stderr_then :: "string \<Rightarrow> world \<Rightarrow> 'v ending \<Rightarrow> 'v run" where
  "write_stderr_then text w e =
     (case stderr_getvalue w of
        Inl x \<Rightarrow> finished w (Raised x)
      | Inr content \<Rightarrow> finished (w\<lparr>stderr_getvalue := Inr (content @ text)\<rparr>) e)"

text \<open>
  What a pending alarm does to code that would not finish by itself: with an alarm
  pending and \<open>timeout_handler\<close> installed, the handler runs inside the code and the
  exception it raises is raised there. Without an alarm, or under the default action
  (which kills the process), control never comes back; no other handler is installed in
  the table.
\<close>

definition alarm_interrupt :: "world \<Rightarrow> exc option" where
  "alarm_interrupt w =
     (case sig_alarm w of
        None \<Rightarrow> None
      | Some n \<Rightarrow>
          (case sig_handler w of
             Some Timeout_handler \<Rightarrow> Some (timeout_handler w SIGALRM ())
           | _ \<Rightarrow> None))"

definition interrupted :: "world \<Rightarrow> 'v ending \<Rightarrow> 'v run" where
  "interrupted w e =
     \<lparr>alarm_fired = True, world_after = w\<lparr>sig_alarm := None\<rparr>,
      result_after = (\<lambda>r. r), ending = e\<rparr>"

definition assert_x :: "obj namespace \<Rightarrow> int \<Rightarrow> string option \<Rightarrow> obj ending" where
  "assert_x ns k msg =
     (case ns ''x'' of
        None \<Rightarrow> Raised (new_NameError ''x'')
      | Some v \<Rightarrow> if v = IntObj k then Returned ns else Raised (new_AssertionError msg))"

definition sample_eval :: "string \<Rightarrow> obj namespace \<Rightarrow> world \<Rightarrow> obj run" where
  "sample_eval p ns w =
     (if p = [] then finished w (Returned ns)
      else if p = src_print1 then write_stdout (''1'' @ newline) w ns
      else if p = src_print2 then write_stdout (''2'' @ newline) w ns
      else if p = src_assign then finished w (Returned (ns(''x'' \<mapsto> IntObj 1)))
      else if p = src_assert1 then finished w (assert_x ns 1 None)
      else if p = src_assert2 then finished w (assert_x ns 2 None)
      else if p = src_assert2_msg then finished w (assert_x ns 2 (Some ''bad x''))
      else if p = src_assert2_empty then finished w (assert_x ns 2 (Some []))
      else if p = src_div0 then finished w (Raised new_ZeroDivisionError)
      else if p = src_warn_div0
        then write_stderr_then ''warn'' w (Raised new_ZeroDivisionError)
      else if p = src_exit then finished w (Raised new_SystemExit)
      else if p = src_raise_syntax then finished w (Raised (new_SyntaxError ''boom''))
      else if p = src_raise_E then finished w (Raised new_E)
      else if p = src_raise_Bad then
        finished
          (w\<lparr>py_str := (\<lambda>e. if e = new_Bad then Inl (new_ValueError ''no'')
                             else py_str w e)\<rparr>)
          (Raised new_Bad)
      else if p = src_loop then
        (case alarm_interrupt w of
           None \<Rightarrow> finished w NoReturn
         | Some e \<Rightarrow> interrupted w (Raised e))
      else if p = src_guarded_loop then
        (case alarm_interrupt w of
           None \<Rightarrow> finished w NoReturn
         | Some e \<Rightarrow>
             interrupted w
               (case except_test w TimeoutError e of
                  Inl x \<Rightarrow> Raised x
                | Inr True \<Rightarrow> Returned (ns(''x'' \<mapsto> IntObj 1))
                | Inr False \<Rightarrow> Raised e))
      else if p = src_close_stdout then
        finished (w\<lparr>stdout_getvalue := Inl closed_file\<rparr>)
          (Returned (ns(''sys'' \<mapsto> ModuleObj ''sys'')))
      else if p = src_close_stderr_div0 then
        finished (w\<lparr>stderr_getvalue := Inl closed_file\<rparr>) (Raised new_ZeroDivisionError)
      else if p = src_truncate then
        (case stdout_getvalue w of
           Inl e \<Rightarrow> finished w (Raised e)
         | Inr content \<Rightarrow>
             finished (w\<lparr>stdout_getvalue := Inr []\<rparr>)
               (Returned (ns(''sys'' \<mapsto> ModuleObj ''sys''))))
      else if p = src_rebind then
        finished
          (w\<lparr>except_test :=
                (\<lambda>c e. if c = AssertionError then Inr (isinstance e (ClassNamed ''KeyError''))
                        else except_test w c e)\<rparr>)
          (Returned (ns(''builtins'' \<mapsto> ModuleObj ''builtins'', ''x'' \<mapsto> IntObj 1)))
      else if p = src_set_error_type then
        \<lparr>alarm_fired = False, world_after = w,
         result_after = (\<lambda>r. r\<lparr>error_type := Some ''custom''\<rparr>),
         ending = Returned (ns(''sys'' \<mapsto> ModuleObj ''sys''))\<rparr>
      else if p = src_break_exit then
        finished (w\<lparr>with_exit := (\<lambda>pending. Some new_IndexError)\<rparr>)
          (Returned (ns(''gc'' \<mapsto> ModuleObj ''gc'',
                        ''contextlib'' \<mapsto> ModuleObj ''contextlib'')))
      else if p = src_rebind_exec then
        finished (w\<lparr>exec_builtin := False\<rparr>)
          (Returned (ns(''builtins'' \<mapsto> ModuleObj ''builtins'')))
      else finished w NoReturn)"

text \<open>
  \<^verbatim>\<open>traceback.format_exc()\<close> returns a header line, the entries of the frames and a last
  line made of the name of the class and the text of the exception. The entries of the
  frames name the file of the executor, which is not fixed by the source: they are left
  out of \<open>traceback_of\<close>, which stands for the whole text.
\<close>

fun class_name :: "py_class \<Rightarrow> string" where
  "class_name BaseException = ''BaseException''"
| "class_name Exception = ''Exception''"
| "class_name SyntaxError = ''SyntaxError''"
| "class_name TimeoutError = ''TimeoutError''"
| "class_name AssertionError = ''AssertionError''"
| "class_name JSONDecodeError = ''json.decoder.JSONDecodeError''"
| "class_name (ClassNamed name) = name"

definition traceback_of :: "exc \<Rightarrow> string" where
  "traceback_of e =
     ''Traceback (most recent call last):'' @ newline @
     (case exc_mro e of [] \<Rightarrow> [] | c # bases \<Rightarrow> class_name c) @
     (if exc_str e = [] then [] else '': '' @ exc_str e) @ newline"

definition sample_format_exc :: "exc \<Rightarrow> exc + string" where
  "sample_format_exc e = Inr (traceback_of e)"

definition json_not_json :: string where "json_not_json = ''not json''"
definition json_nan :: string where "json_nan = ''NaN''"
definition json_array :: string where "json_array = ''[1, 2]''"
definition json_empty_object :: string where "json_empty_object = ''{}''"

definition sample_loads :: "string \<Rightarrow> exc + json" where
  "sample_loads text =
     (if text = json_array then Inr (JArray [JInt 1, JInt 2])
      else if text = json_empty_object then Inr (JObject [])
      else if text = json_nan then Inr (JFloat ''NaN'')
      else Inl (new_JSONDecodeError ''Expecting value: line 1 column 1 (char 0)''))"

definition cpython :: "(obj, string) python" where
  "cpython =
     \<lparr>builtins = ModuleObj ''builtins'', py_compile = sample_compile,
      py_eval = sample_eval, json_loads = sample_loads,
      late_alarm = (\<lambda>pt w. False), foreign_handler = (\<lambda>h w. (None, w)),
      other_exec = (\<lambda>source ns w. finished w (Returned ns))\<rparr>"

text \<open>
  The world of a process that has just started, where the \<^verbatim>\<open>signal\<close> module has
  \<^verbatim>\<open>SIGALRM\<close>, and where it has not.
\<close>

definition process_start :: world where
  "process_start =
     \<lparr>sig_handler = None, sig_alarm = None, hasattr_SIGALRM = Inr True,
      signal_signal_error = None, signal_alarm_error = None, with_exit = (\<lambda>pending. pending),
      stdout_getvalue = Inr [], stderr_getvalue = Inr [],
      except_test = (\<lambda>c e. Inr (isinstance e c)), py_str = (\<lambda>e. Inr (exc_str e)),
      format_exc = sample_format_exc, raise_TimeoutError = new_TimeoutError,
      exec_builtin = True\<rparr>"

definition process_start_no_alarm :: world where
  "process_start_no_alarm = process_start\<lparr>hasattr_SIGALRM := Inr False\<rparr>"

section \<open>Properties of the executor\<close>

lemmas sample_runtime =
  cpython_def sample_compile_def sample_eval_def sample_sources_def sample_format_exc_def
  sample_loads_def src_print1_def src_print2_def src_assign_def src_assert1_def
  src_assert2_def src_assert2_msg_def src_assert2_empty_def src_div0_def src_warn_div0_def
  src_exit_def src_raise_syntax_def src_raise_E_def src_raise_Bad_def src_loop_def
  src_guarded_loop_def src_close_stdout_def src_close_stderr_div0_def src_truncate_def
  src_rebind_def src_set_error_type_def src_break_exit_def src_rebind_exec_def
  src_unclosed_def newline_def finished_def interrupted_def
  write_stdout_def write_stderr_then_def alarm_interrupt_def assert_x_def process_start_def
  process_start_no_alarm_def json_not_json_def json_nan_def json_array_def
  json_empty_object_def timeout_handler_def SIGALRM_def

lemmas executor_defs =
  new_buffers_def set_timeout_def clear_timeout_def fresh_namespace_def with_block_def
  try_suite_def except_clauses_def finally_clause_def py_exec_def raised_at_once_def
  isinstance_def TIMEOUT_SECONDS_def Let_def at_point_def interrupt_def run_finally_def

subsection \<open>The parts of \<open>execute_code\<close>\<close>

lemma at_point_quiet:
  assumes "no_late_alarm py"
  shows "at_point py pt w on_raise go_on = go_on w"
  using assms by (simp add: no_late_alarm_def at_point_def interrupt_def)

lemma cpython_quiet: "no_late_alarm cpython"
  by (simp add: no_late_alarm_def cpython_def)

lemma execute_code_parts:
  assumes "no_late_alarm py"
  shows "execute_code py code test w0 =
     (case try_suite py code test initial_result (new_buffers w0) of
        None \<Rightarrow> None
      | Some (raised, res, w2) \<Rightarrow>
          Some (finally_clause w2
                  (case raised of None \<Rightarrow> Return res | Some e \<Rightarrow> except_clauses w2 e res)))"
  by (simp add: execute_code_def run_finally_def at_point_quiet [OF assms] Let_def
      split: option.split prod.split)

lemma with_block_completes:
  assumes "no_late_alarm py"
    and "py_exec py code ns w = r1" and "ending r1 = Returned ns1"
    and "py_exec py test ns1 (world_after r1) = r2" and "ending r2 = Returned ns2"
  shows "with_block py code test ns res w =
           Some (with_exit (world_after r2) None, result_after r2 (result_after r1 res),
                 world_after r2)"
  using assms(2-) by (simp add: with_block_def at_point_quiet [OF assms(1)] Let_def)


lemma with_block_test_raises:
  assumes "no_late_alarm py"
    and "py_exec py code ns w = r1" and "ending r1 = Returned ns1"
    and "py_exec py test ns1 (world_after r1) = r2" and "ending r2 = Raised e"
  shows "with_block py code test ns res w =
           Some (with_exit (world_after r2) (Some e),
                 result_after r2 (result_after r1 res), world_after r2)"
  using assms(2-) by (simp add: with_block_def at_point_quiet [OF assms(1)] Let_def)

lemma try_suite_raises:
  assumes "no_late_alarm py"
    and "set_timeout w = (None, w1)"
    and "with_block py code test (fresh_namespace py) res w1 = Some (Some e, res', w2)"
  shows "try_suite py code test res w = Some (Some e, res', w2)"
  using assms(2-) by (simp add: try_suite_def at_point_quiet [OF assms(1)])


lemma try_suite_getvalue_raises:
  assumes "no_late_alarm py"
    and "set_timeout w = (None, w1)"
    and "with_block py code test (fresh_namespace py) res w1 = Some (None, res', w2)"
    and "stdout_getvalue w2 = Inl e"
  shows "try_suite py code test res w = Some (Some e, res'\<lparr>passed := True\<rparr>, w2)"
  using assms(2-) by (simp add: try_suite_def at_point_quiet [OF assms(1)])

lemma try_suite_no_return:
  assumes "no_late_alarm py"
    and "set_timeout w = (None, w1)"
    and "with_block py code test (fresh_namespace py) res w1 = None"
  shows "try_suite py code test res w = None"
  using assms(2-) by (simp add: try_suite_def at_point_quiet [OF assms(1)])

lemma finally_clause_reads:
  assumes "clear_timeout w = (None, w3)" and "stderr_getvalue w3 = Inr err"
  shows "finally_clause w pending =
           (case pending of
              Return r \<Rightarrow> Return (r\<lparr>test_output := err\<rparr>)
            | Propagate e \<Rightarrow> Propagate e,
            w3)"
  using assms by (simp add: finally_clause_def split: exit.split)

lemma except_clauses_builtin:
  assumes "builtin_clauses w e"
  shows "except_clauses w e res =
           (if isinstance e SyntaxError then
              (case py_str w e of
                 Inl x \<Rightarrow> Propagate x
               | Inr s \<Rightarrow> Return (res\<lparr>error := Some s, error_type := Some ''syntax''\<rparr>))
            else if isinstance e TimeoutError then
              (case py_str w e of
                 Inl x \<Rightarrow> Propagate x
               | Inr s \<Rightarrow> Return (res\<lparr>error := Some s, error_type := Some ''timeout''\<rparr>))
            else if isinstance e AssertionError then
              (case py_str w e of
                 Inl x \<Rightarrow> Propagate x
               | Inr s \<Rightarrow>
                   Return (res\<lparr>error := Some (if s = [] then ''Assertion failed'' else s),
                               error_type := Some ''assertion''\<rparr>))
            else if isinstance e Exception then
              (case format_exc w e of
                 Inl x \<Rightarrow> Propagate x
               | Inr s \<Rightarrow> Return (res\<lparr>error := Some s, error_type := Some ''runtime''\<rparr>))
            else Propagate e)"
  using assms by (simp add: builtin_clauses_def except_clauses_def)

lemma execute_code_raised:
  assumes "no_late_alarm py"
    and "set_timeout (new_buffers w0) = (None, w1)"
    and "with_block py code test (fresh_namespace py) initial_result w1 =
           Some (Some e, res, w2)"
    and "clear_timeout w2 = (None, w3)" and "stderr_getvalue w3 = Inr err"
  shows "execute_code py code test w0 =
           Some (case except_clauses w2 e res of
                   Return r \<Rightarrow> Return (r\<lparr>test_output := err\<rparr>)
                 | Propagate x \<Rightarrow> Propagate x,
                 w3)"
  by (simp add: execute_code_parts [OF assms(1)] try_suite_raises [OF assms(1,2,3)]
      finally_clause_reads [OF assms(4,5)])




text \<open>
  C2, as amended. When the evaluation of \<open>code\<close> or of \<open>test\<close> raises and the
  exception \<open>e\<close> leaves the \<^verbatim>\<open>with\<close> block, while the
  alarm does not go off among the executor's own statements, the evaluated code has not
  set \<open>passed\<close> in the dictionary \<^verbatim>\<open>result\<close>, the four clause names still name the
  built-in classes, \<^verbatim>\<open>str(e)\<close> and \<^verbatim>\<open>traceback.format_exc()\<close> return and the cleanup
  step raises nothing, the first row of
  the table that \<open>e\<close> matches, in the order \<^verbatim>\<open>SyntaxError\<close>, \<^verbatim>\<open>TimeoutError\<close>,
  \<^verbatim>\<open>AssertionError\<close>, \<^verbatim>\<open>Exception\<close>, gives the \<open>error_type\<close> of the returned result,
  which has \<open>passed\<close> false. An exception that matches no row (it is no instance of
  \<^verbatim>\<open>Exception\<close>) is not classified: no result is returned and the exception leaves
  \<open>execute_code\<close>, after the cleanup step.
\<close>

theorem exception_classification:
  assumes "no_late_alarm py"
    and "set_timeout (new_buffers w0) = (None, w1)"
    and "with_block py code test (fresh_namespace py) initial_result w1 =
           Some (Some e, res, w2)"
    and "\<not> passed res"
    and "builtin_clauses w2 e"
    and "py_str w2 e = Inr m"
    and "format_exc w2 e = Inr tb"
    and "clear_timeout w2 = (None, w3)"
    and "stderr_getvalue w3 = Inr err"
  shows "\<exists>x. execute_code py code test w0 = Some (x, w3) \<and>
           (case first_match e error_categories of
              Some tag \<Rightarrow> \<exists>r. x = Return r \<and> \<not> passed r \<and> error_type r = Some tag
            | None \<Rightarrow> x = Propagate e)"
  unfolding execute_code_raised [OF assms(1,2,3,8,9)] except_clauses_builtin [OF assms(5)]
  using assms(4,6,7) by (simp add: error_categories_def)

theorem exception_classification_witness:
  "first_match new_E error_categories = Some ''timeout'' \<and>
   (\<exists>r w. execute_code cpython (JString src_raise_E) (JString []) process_start =
            Some (Return r, w) \<and>
          \<not> passed r \<and> error_type r = Some ''timeout'') \<and>
   first_match new_SystemExit error_categories = None \<and>
   map_option fst
     (execute_code cpython (JString src_exit) (JString src_print1) process_start_no_alarm) =
     Some (Propagate new_SystemExit)"
proof -
  let ?w1 = "(new_buffers process_start)
               \<lparr>sig_handler := Some Timeout_handler, sig_alarm := Some TIMEOUT_SECONDS\<rparr>"
  let ?v1 = "new_buffers process_start_no_alarm"
  have armed: "set_timeout (new_buffers process_start) = (None, ?w1)"
    by (simp add: executor_defs sample_runtime)
  have raise_E:
    "with_block cpython (JString src_raise_E) (JString []) (fresh_namespace cpython)
       initial_result ?w1 = Some (Some new_E, initial_result, ?w1)"
    by (simp add: executor_defs sample_runtime)
  have clauses_E: "builtin_clauses ?w1 new_E"
    by (simp add: builtin_clauses_def executor_defs sample_runtime)
  have str_E: "py_str ?w1 new_E = Inr []"
    by (simp add: executor_defs sample_runtime new_E_def)
  have tb_E: "format_exc ?w1 new_E = sample_format_exc new_E"
    by (simp add: executor_defs sample_runtime)
  have clear: "clear_timeout ?w1 = (None, ?w1\<lparr>sig_alarm := None\<rparr>)"
    by (simp add: executor_defs sample_runtime)
  have err: "stderr_getvalue (?w1\<lparr>sig_alarm := None\<rparr>) = Inr []"
    by (simp add: executor_defs sample_runtime)
  have not_armed: "set_timeout ?v1 = (None, ?v1)"
    by (simp add: executor_defs sample_runtime)
  have raise_exit:
    "with_block cpython (JString src_exit) (JString src_print1) (fresh_namespace cpython)
       initial_result ?v1 = Some (Some new_SystemExit, initial_result, ?v1)"
    by (simp add: executor_defs sample_runtime)
  have clauses_exit: "builtin_clauses ?v1 new_SystemExit"
    by (simp add: builtin_clauses_def executor_defs sample_runtime)
  have str_exit: "py_str ?v1 new_SystemExit = Inr []"
    by (simp add: executor_defs sample_runtime new_SystemExit_def)
  have tb_exit: "format_exc ?v1 new_SystemExit = sample_format_exc new_SystemExit"
    by (simp add: executor_defs sample_runtime)
  have clear_exit: "clear_timeout ?v1 = (None, ?v1)"
    by (simp add: executor_defs sample_runtime)
  have err_exit: "stderr_getvalue ?v1 = Inr []"
    by (simp add: executor_defs sample_runtime)
  have not_set: "\<not> passed initial_result"
    by simp
  have E: "first_match new_E error_categories = Some ''timeout''"
    by (simp add: error_categories_def new_E_def isinstance_def)
  have X: "first_match new_SystemExit error_categories = None"
    by (simp add: error_categories_def new_SystemExit_def isinstance_def)
  show ?thesis
    using
      exception_classification
        [OF cpython_quiet armed raise_E not_set clauses_E str_E
          tb_E [unfolded sample_format_exc_def] clear err]
      exception_classification
        [OF cpython_quiet not_armed raise_exit not_set clauses_exit str_exit
          tb_exit [unfolded sample_format_exc_def] clear_exit err_exit]
      E X
    by auto
qed

text \<open>
  C2, as stated, fails: evaluating \<^verbatim>\<open>raise SystemExit\<close> raises an exception that is not
  classified as \<open>runtime\<close>; \<open>execute_code\<close> returns no result at all. And an instance
  of a subclass of \<^verbatim>\<open>SyntaxError\<close> whose \<^verbatim>\<open>__str__\<close> raises is matched by the first row,
  but line 53 raises inside the clause: no result is returned either.
\<close>

theorem exception_classification_counterexample:
  "ending (py_exec cpython (JString src_exit) (fresh_namespace cpython)
             (snd (set_timeout (new_buffers process_start)))) = Raised new_SystemExit \<and>
   map_option fst (execute_code cpython (JString src_exit) (JString []) process_start) =
     Some (Propagate new_SystemExit) \<and>
   ending (py_exec cpython (JString src_raise_Bad) (fresh_namespace cpython)
             (snd (set_timeout (new_buffers process_start)))) = Raised new_Bad \<and>
   first_match new_Bad error_categories = Some ''syntax'' \<and>
   map_option fst
     (execute_code cpython (JString src_raise_Bad) (JString []) process_start) =
     Some (Propagate (new_ValueError ''no''))"
  by (simp add: execute_code_def executor_defs sample_runtime new_SystemExit_def
      new_Bad_def error_categories_def)

text \<open>
  C3, as amended. Where \<^verbatim>\<open>hasattr(signal, 'SIGALRM')\<close> holds and the two calls of the
  \<^verbatim>\<open>signal\<close> module raise nothing, the evaluation starts with \<open>timeout_handler\<close>
  installed and the alarm armed at 30 seconds; where it does not hold, nothing is
  installed, armed or disarmed. When the alarm does not go off among the executor's own
  statements and the exception that \<open>timeout_handler\<close> raises (a
  \<^verbatim>\<open>TimeoutError\<close> with the message \<open>Execution timed out\<close>, while that name has its
  built-in meaning) leaves the \<^verbatim>\<open>with\<close> block, the evaluated code has left the dictionary
  \<^verbatim>\<open>result\<close> as lines 21 to 27 built it, the clause names still name the built-in
  classes, \<^verbatim>\<open>str(e)\<close> returns the text of the exception and the cleanup step raises
  nothing, \<open>execute_code\<close> returns \<open>passed\<close> false, \<open>error_type\<close> \<open>timeout\<close> and the
  message \<open>Execution timed out\<close>.
\<close>

theorem timeout_classification:
  assumes "no_late_alarm py"
    and "set_timeout (new_buffers w0) = (None, w1)"
    and "with_block py code test (fresh_namespace py) initial_result w1 =
           Some (Some e, initial_result, w2)"
    and "e = timeout_handler wa signum frame"
    and "raise_TimeoutError wa = new_TimeoutError"
    and "builtin_clauses w2 e"
    and "py_str w2 e = Inr (exc_str e)"
    and "clear_timeout w2 = (None, w3)"
    and "stderr_getvalue w3 = Inr err"
  shows "execute_code py code test w0 =
           Some (Return \<lparr>passed = False, error = Some ''Execution timed out'',
                         error_type = Some ''timeout'', output = [], test_output = err\<rparr>,
                 w3) \<and>
         (hasattr_SIGALRM w = Inr True \<and> signal_signal_error w = None \<and>
          signal_alarm_error w = None \<longrightarrow>
            set_timeout w =
              (None, w\<lparr>sig_handler := Some Timeout_handler, sig_alarm := Some 30\<rparr>)) \<and>
         (hasattr_SIGALRM w = Inr False \<longrightarrow>
            set_timeout w = (None, w) \<and> clear_timeout w = (None, w))"
proof -
  from assms(4,5) have e: "e = new_TimeoutError ''Execution timed out''"
    by (simp add: timeout_handler_def)
  have "except_clauses w2 e initial_result =
          Return \<lparr>passed = False, error = Some ''Execution timed out'',
                  error_type = Some ''timeout'', output = [], test_output = []\<rparr>"
    unfolding except_clauses_builtin [OF assms(6)]
    using assms(7) by (simp add: e new_TimeoutError_def isinstance_def)
  then have "execute_code py code test w0 =
               Some (Return \<lparr>passed = False, error = Some ''Execution timed out'',
                             error_type = Some ''timeout'', output = [],
                             test_output = err\<rparr>,
                     w3)"
    by (simp add: execute_code_raised [OF assms(1,2,3,8,9)])
  then show ?thesis
    by (simp add: set_timeout_def clear_timeout_def TIMEOUT_SECONDS_def)
qed

theorem timeout_classification_witness:
  "set_timeout (new_buffers process_start) =
     (None, (new_buffers process_start)
              \<lparr>sig_handler := Some Timeout_handler, sig_alarm := Some 30\<rparr>) \<and>
   map_option fst (execute_code cpython (JString src_loop) (JString []) process_start) =
     Some (Return \<lparr>passed = False, error = Some ''Execution timed out'',
                   error_type = Some ''timeout'', output = [], test_output = []\<rparr>) \<and>
   set_timeout (new_buffers process_start_no_alarm) =
     (None, new_buffers process_start_no_alarm) \<and>
   execute_code cpython (JString src_loop) (JString []) process_start_no_alarm = None"
proof -
  let ?w1 = "(new_buffers process_start)
               \<lparr>sig_handler := Some Timeout_handler, sig_alarm := Some TIMEOUT_SECONDS\<rparr>"
  let ?w2 = "?w1\<lparr>sig_alarm := None\<rparr>"
  let ?v1 = "new_buffers process_start_no_alarm"
  have armed: "set_timeout (new_buffers process_start) = (None, ?w1)"
    by (simp add: executor_defs sample_runtime)
  have loop:
    "with_block cpython (JString src_loop) (JString []) (fresh_namespace cpython)
       initial_result ?w1 =
     Some (Some (new_TimeoutError ''Execution timed out''), initial_result, ?w2)"
    by (simp add: executor_defs sample_runtime)
  have handler:
    "new_TimeoutError ''Execution timed out'' = timeout_handler ?w1 SIGALRM ()"
    by (simp add: executor_defs sample_runtime)
  have meaning: "raise_TimeoutError ?w1 = new_TimeoutError"
    by (simp add: executor_defs sample_runtime)
  have clauses: "builtin_clauses ?w2 (new_TimeoutError ''Execution timed out'')"
    by (simp add: builtin_clauses_def executor_defs sample_runtime)
  have str:
    "py_str ?w2 (new_TimeoutError ''Execution timed out'') =
       Inr (exc_str (new_TimeoutError ''Execution timed out''))"
    by (simp add: executor_defs sample_runtime)
  have clear: "clear_timeout ?w2 = (None, ?w2)"
    by (simp add: executor_defs sample_runtime)
  have err: "stderr_getvalue ?w2 = Inr []"
    by (simp add: executor_defs sample_runtime)
  have has: "hasattr_SIGALRM (new_buffers process_start) = Inr True"
    "signal_signal_error (new_buffers process_start) = None"
    "signal_alarm_error (new_buffers process_start) = None"
    "hasattr_SIGALRM ?v1 = Inr False"
    by (simp_all add: executor_defs sample_runtime)
  have not_armed: "set_timeout ?v1 = (None, ?v1)"
    by (simp add: executor_defs sample_runtime)
  have endless:
    "with_block cpython (JString src_loop) (JString []) (fresh_namespace cpython)
       initial_result ?v1 = None"
    by (simp add: executor_defs sample_runtime)
  have no_return:
    "execute_code cpython (JString src_loop) (JString []) process_start_no_alarm = None"
    by (simp add: execute_code_parts [OF cpython_quiet]
        try_suite_no_return [OF cpython_quiet not_armed endless])
  show ?thesis
    using
      timeout_classification
        [OF cpython_quiet armed loop handler meaning clauses str clear err,
          of "new_buffers process_start"]
      timeout_classification
        [OF cpython_quiet armed loop handler meaning clauses str clear err, of ?v1]
      has no_return
    by simp
qed

text \<open>
  C3, as stated, fails: the alarm goes off while the guarded loop
  \<^verbatim>\<open>try: while True: x = 1 / except TimeoutError: pass\<close> runs, the source catches the
  exception of the handler, and the result is \<open>passed\<close> with no \<open>error_type\<close>.
\<close>

theorem timeout_classification_counterexample:
  "alarm_fired (py_exec cpython (JString src_guarded_loop) (fresh_namespace cpython)
                  (snd (set_timeout (new_buffers process_start)))) \<and>
   map_option fst
     (execute_code cpython (JString src_guarded_loop) (JString []) process_start) =
     Some (Return \<lparr>passed = True, error = None, error_type = None,
                   output = [], test_output = []\<rparr>)"
  by (simp add: execute_code_def executor_defs sample_runtime new_TimeoutError_def)










lemma py_exec_parse_failure:
  assumes "exec_builtin w" and "py_compile py text = Inl e"
  shows "py_exec py (JString text) ns w = raised_at_once e w"
  using assms by (simp add: py_exec_def)

lemma except_clauses_syntax:
  assumes "except_test w SyntaxError e = Inr True" and "py_str w e = Inr m"
  shows "except_clauses w e res =
           Return (res\<lparr>error := Some m, error_type := Some ''syntax''\<rparr>)"
  using assms by (simp add: except_clauses_def)

lemma except_clauses_syntax_only:
  assumes "except_clauses w e res = Return r" and "error_type r = Some ''syntax''"
  shows "except_test w SyntaxError e = Inr True \<and> (\<exists>m. py_str w e = Inr m)"
  using assms
  by (auto simp add: except_clauses_def split: sum.splits bool.splits)

text \<open>
  C6, as amended. While the alarm does not go off among the executor's own statements,
  the evaluated code has not set \<open>error_type\<close> in the dictionary \<^verbatim>\<open>result\<close>, the name
  \<^verbatim>\<open>SyntaxError\<close> still names the built-in class and the cleanup step raises
  nothing, \<open>execute_code\<close> produces \<open>error_type\<close> \<open>syntax\<close>
  exactly when the exception that leaves the \<^verbatim>\<open>try\<close> suite (raised by \<open>code\<close>, by
  \<open>test\<close> once \<open>code\<close> has returned, or by a statement of the suite itself) is an
  instance of \<^verbatim>\<open>SyntaxError\<close> and \<^verbatim>\<open>str(e)\<close> returns; \<open>error\<close> is then what \<^verbatim>\<open>str(e)\<close>
  returned. The suite ends with the exception of the parser when \<open>code\<close> fails to parse,
  and when \<open>code\<close> returns and \<open>test\<close> fails to parse (while \<^verbatim>\<open>exec\<close> still names the
  built-in function and leaving the \<^verbatim>\<open>with\<close> block lets the exception pass).
\<close>

theorem syntax_classification:
  assumes "no_late_alarm py"
    and "try_suite py code test initial_result (new_buffers w0) = Some (raised, res, w2)"
    and "error_type res = None"
    and "except_test w2 SyntaxError = (\<lambda>e. Inr (isinstance e SyntaxError))"
    and "clear_timeout w2 = (None, w3)"
    and "stderr_getvalue w3 = Inr err"
  shows "((\<exists>r w. execute_code py code test w0 = Some (Return r, w) \<and>
                 error_type r = Some ''syntax'') =
          (\<exists>e m. raised = Some e \<and> isinstance e SyntaxError \<and> py_str w2 e = Inr m)) \<and>
         (\<forall>e m. raised = Some e \<longrightarrow> isinstance e SyntaxError \<longrightarrow> py_str w2 e = Inr m \<longrightarrow>
              execute_code py code test w0 =
                Some (Return (res\<lparr>error := Some m, error_type := Some ''syntax'',
                                   test_output := err\<rparr>),
                      w3)) \<and>
         (\<forall>w1 text e. set_timeout (new_buffers w0) = (None, w1) \<longrightarrow> exec_builtin w1 \<longrightarrow>
              code = JString text \<longrightarrow> py_compile py text = Inl e \<longrightarrow>
              with_exit w1 (Some e) = Some e \<longrightarrow>
              raised = Some e \<and> res = initial_result) \<and>
         (\<forall>w1 text e ns1.
              set_timeout (new_buffers w0) = (None, w1) \<longrightarrow>
              ending (py_exec py code (fresh_namespace py) w1) = Returned ns1 \<longrightarrow>
              exec_builtin (world_after (py_exec py code (fresh_namespace py) w1)) \<longrightarrow>
              test = JString text \<longrightarrow> py_compile py text = Inl e \<longrightarrow>
              with_exit (world_after (py_exec py code (fresh_namespace py) w1)) (Some e) =
                Some e \<longrightarrow>
              raised = Some e \<and>
              res = result_after (py_exec py code (fresh_namespace py) w1) initial_result)"
proof -
  have run:
    "execute_code py code test w0 =
       Some (case (case raised of None \<Rightarrow> Return res | Some e \<Rightarrow> except_clauses w2 e res) of
               Return r \<Rightarrow> Return (r\<lparr>test_output := err\<rparr>)
             | Propagate e \<Rightarrow> Propagate e,
             w3)"
    using assms(2)
    by (simp add: execute_code_parts [OF assms(1)] finally_clause_reads [OF assms(5,6)])
  have message:
    "execute_code py code test w0 =
       Some (Return (res\<lparr>error := Some m, error_type := Some ''syntax'',
                          test_output := err\<rparr>),
             w3)"
    if "raised = Some e" and "isinstance e SyntaxError" and "py_str w2 e = Inr m" for e m
    using that assms(4) by (simp add: run except_clauses_syntax)
  have only:
    "\<exists>e m. raised = Some e \<and> isinstance e SyntaxError \<and> py_str w2 e = Inr m"
    if "execute_code py code test w0 = Some (Return r, w)"
      and "error_type r = Some ''syntax''" for r w
  proof (cases raised)
    case None
    with that run assms(3) show ?thesis by auto
  next
    case (Some e)
    with that run obtain r' where
      "except_clauses w2 e res = Return r'" and "error_type r' = Some ''syntax''"
      by (auto split: exit.splits)
    from except_clauses_syntax_only [OF this] assms(4) Some show ?thesis by auto
  qed
  have tag:
    "(\<exists>r w. execute_code py code test w0 = Some (Return r, w) \<and>
            error_type r = Some ''syntax'') =
     (\<exists>e m. raised = Some e \<and> isinstance e SyntaxError \<and> py_str w2 e = Inr m)"
    using message only by (auto simp del: split_paired_Ex)
  have code_parse: "raised = Some e \<and> res = initial_result"
    if "set_timeout (new_buffers w0) = (None, w1)" and "exec_builtin w1"
      and "code = JString src" and "py_compile py src = Inl e"
      and "with_exit w1 (Some e) = Some e" for w1 src e
    using that assms(2)
    by (auto simp add: try_suite_def with_block_def at_point_quiet [OF assms(1)]
        py_exec_parse_failure raised_at_once_def)
  have test_parse:
    "raised = Some e \<and>
     res = result_after (py_exec py code (fresh_namespace py) w1) initial_result"
    if "set_timeout (new_buffers w0) = (None, w1)"
      and "ending (py_exec py code (fresh_namespace py) w1) = Returned ns1"
      and "exec_builtin (world_after (py_exec py code (fresh_namespace py) w1))"
      and "test = JString src" and "py_compile py src = Inl e"
      and "with_exit (world_after (py_exec py code (fresh_namespace py) w1)) (Some e) =
             Some e" for w1 src e ns1
    using that assms(2)
    by (auto simp add: try_suite_def with_block_def at_point_quiet [OF assms(1)] Let_def
        py_exec_parse_failure raised_at_once_def)
  from tag message code_parse test_parse show ?thesis by blast
qed

theorem syntax_classification_witness:
  "map_option fst
     (execute_code cpython (JString src_unclosed) (JString []) process_start) =
     Some (Return \<lparr>passed = False,
                   error = Some (quoted ''('' @ '' was never closed (<string>, line 1)''),
                   error_type = Some ''syntax'', output = [], test_output = []\<rparr>) \<and>
   \<not> (\<exists>r w. execute_code cpython (JString src_div0) (JString src_unclosed)
               process_start = Some (Return r, w) \<and>
             error_type r = Some ''syntax'') \<and>
   \<not> (\<exists>r w. execute_code cpython (JString src_raise_Bad) (JString [])
               process_start = Some (Return r, w) \<and>
             error_type r = Some ''syntax'')"
proof -
  let ?w1 = "(new_buffers process_start)
               \<lparr>sig_handler := Some Timeout_handler, sig_alarm := Some TIMEOUT_SECONDS\<rparr>"
  let ?wb = "?w1\<lparr>py_str := (\<lambda>e. if e = new_Bad then Inl (new_ValueError ''no'')
                                  else py_str ?w1 e)\<rparr>"
  let ?paren = "new_SyntaxError (quoted ''('' @ '' was never closed (<string>, line 1)'')"
  have unclosed:
    "try_suite cpython (JString src_unclosed) (JString []) initial_result
       (new_buffers process_start) = Some (Some ?paren, initial_result, ?w1)"
    by (simp add: executor_defs sample_runtime)
  have div0:
    "try_suite cpython (JString src_div0) (JString src_unclosed) initial_result
       (new_buffers process_start) = Some (Some new_ZeroDivisionError, initial_result, ?w1)"
    by (simp add: executor_defs sample_runtime)
  have bad:
    "try_suite cpython (JString src_raise_Bad) (JString []) initial_result
       (new_buffers process_start) = Some (Some new_Bad, initial_result, ?wb)"
    by (simp add: executor_defs sample_runtime cong del: if_weak_cong)
  have not_set: "error_type initial_result = None"
    by simp
  have name:
    "except_test ?w1 SyntaxError = (\<lambda>e. Inr (isinstance e SyntaxError))"
    "except_test ?wb SyntaxError = (\<lambda>e. Inr (isinstance e SyntaxError))"
    by (simp_all add: executor_defs sample_runtime)
  have clear:
    "clear_timeout ?w1 = (None, ?w1\<lparr>sig_alarm := None\<rparr>)"
    "clear_timeout ?wb = (None, ?wb\<lparr>sig_alarm := None\<rparr>)"
    by (simp_all add: executor_defs sample_runtime)
  have read:
    "stderr_getvalue (?w1\<lparr>sig_alarm := None\<rparr>) = Inr []"
    "stderr_getvalue (?wb\<lparr>sig_alarm := None\<rparr>) = Inr []"
    by (simp_all add: executor_defs sample_runtime)
  have is_syntax: "isinstance ?paren SyntaxError"
    by (simp add: isinstance_def new_SyntaxError_def)
  have str_paren:
    "py_str ?w1 ?paren = Inr (quoted ''('' @ '' was never closed (<string>, line 1)'')"
    by (simp add: executor_defs sample_runtime new_SyntaxError_def)
  have other_class: "\<not> isinstance new_ZeroDivisionError SyntaxError"
    by (simp add: isinstance_def new_ZeroDivisionError_def)
  have str_bad: "py_str ?wb new_Bad = Inl (new_ValueError ''no'')"
    by (simp add: executor_defs sample_runtime)
  from syntax_classification [OF cpython_quiet unclosed not_set name(1) clear(1) read(1)] is_syntax str_paren
  have a:
    "execute_code cpython (JString src_unclosed) (JString []) process_start =
       Some (Return \<lparr>passed = False,
                     error = Some (quoted ''('' @ '' was never closed (<string>, line 1)''),
                     error_type = Some ''syntax'', output = [], test_output = []\<rparr>,
             ?w1\<lparr>sig_alarm := None\<rparr>)"
    by simp
  from syntax_classification [OF cpython_quiet div0 not_set name(1) clear(1) read(1)] other_class
  have b:
    "\<not> (\<exists>r w. execute_code cpython (JString src_div0) (JString src_unclosed)
                 process_start = Some (Return r, w) \<and>
               error_type r = Some ''syntax'')"
    by simp
  from syntax_classification [OF cpython_quiet bad not_set name(2) clear(2) read(2)] str_bad
  have c:
    "\<not> (\<exists>r w. execute_code cpython (JString src_raise_Bad) (JString [])
                 process_start = Some (Return r, w) \<and>
               error_type r = Some ''syntax'')"
    by simp
  from a b c show ?thesis by simp
qed

text \<open>
  C6, as stated, fails in both directions. The test \<^verbatim>\<open>(\<close> fails to parse, but \<open>code\<close>
  \<^verbatim>\<open>1/0\<close> has raised before it is parsed: the tag is \<open>runtime\<close>. The code
  \<^verbatim>\<open>raise SyntaxError("boom")\<close> and the empty test both parse, and the tag is \<open>syntax\<close>.
  After code that binds \<^verbatim>\<open>exec\<close> to a function that does nothing, the test \<^verbatim>\<open>(\<close> is
  never parsed: the result is \<open>passed\<close>.
\<close>

theorem syntax_classification_counterexample:
  "py_compile cpython src_unclosed =
     Inl (new_SyntaxError (quoted ''('' @ '' was never closed (<string>, line 1)'')) \<and>
   map_option fst
     (execute_code cpython (JString src_div0) (JString src_unclosed) process_start) =
     Some (Return \<lparr>passed = False,
                   error = Some (traceback_of new_ZeroDivisionError),
                   error_type = Some ''runtime'', output = [], test_output = []\<rparr>) \<and>
   py_compile cpython src_raise_syntax = Inr src_raise_syntax \<and>
   py_compile cpython [] = Inr [] \<and>
   map_option fst
     (execute_code cpython (JString src_raise_syntax) (JString []) process_start) =
     Some (Return \<lparr>passed = False, error = Some ''boom'',
                   error_type = Some ''syntax'', output = [], test_output = []\<rparr>) \<and>
   map_option fst
     (execute_code cpython (JString src_rebind_exec) (JString src_unclosed) process_start) =
     Some (Return \<lparr>passed = True, error = None, error_type = None,
                   output = [], test_output = []\<rparr>)"
  by (simp add: execute_code_def executor_defs sample_runtime new_ZeroDivisionError_def
      new_SyntaxError_def)

text \<open>
  C7, as amended. When \<open>code\<close> returns and the \<^verbatim>\<open>AssertionError\<close> of a failing
  \<^verbatim>\<open>assert\<close> leaves the evaluation of \<open>test\<close>, while the alarm does not go off among
  the executor's own statements, the two evaluations leave the dictionary \<^verbatim>\<open>result\<close>
  as lines 21 to 27 built it, leaving the \<^verbatim>\<open>with\<close> block lets the exception pass, the
  clause names still name the built-in classes, \<^verbatim>\<open>str(e)\<close> returns the text of the exception and the cleanup step
  raises nothing, \<open>execute_code\<close> returns \<open>passed\<close> false and \<open>error_type\<close>
  \<open>assertion\<close>; \<open>error\<close> is the message of the assertion when it has a non-empty one,
  and \<open>Assertion failed\<close> when the assertion has no message or an empty one.
\<close>

theorem assertion_classification:
  assumes "no_late_alarm py"
    and "set_timeout (new_buffers w0) = (None, w1)"
    and "py_exec py code [''__builtins__'' \<mapsto> builtins py] w1 = r1"
    and "ending r1 = Returned ns1"
    and "py_exec py test ns1 (world_after r1) = r2"
    and "ending r2 = Raised (new_AssertionError msg)"
    and "result_after r2 (result_after r1 initial_result) = initial_result"
    and "with_exit (world_after r2) (Some (new_AssertionError msg)) =
           Some (new_AssertionError msg)"
    and "builtin_clauses (world_after r2) (new_AssertionError msg)"
    and "py_str (world_after r2) (new_AssertionError msg) =
           Inr (exc_str (new_AssertionError msg))"
    and "clear_timeout (world_after r2) = (None, w3)"
    and "stderr_getvalue w3 = Inr err"
  shows "execute_code py code test w0 =
           Some (Return \<lparr>passed = False,
                         error = Some (case msg of
                                         None \<Rightarrow> ''Assertion failed''
                                       | Some m \<Rightarrow> if m = [] then ''Assertion failed'' else m),
                         error_type = Some ''assertion'', output = [],
                         test_output = err\<rparr>,
                 w3)"
proof -
  have block:
    "with_block py code test (fresh_namespace py) initial_result w1 =
       Some (Some (new_AssertionError msg), initial_result, world_after r2)"
    using assms(3-8)
    by (simp add: with_block_def at_point_quiet [OF assms(1)] fresh_namespace_def Let_def)
  show ?thesis
    unfolding execute_code_raised [OF assms(1,2) block assms(11,12)]
      except_clauses_builtin [OF assms(9)]
    using assms(10)
    by (simp add: new_AssertionError_def isinstance_def split: option.split)
qed

theorem assertion_classification_witness:
  "map_option fst
     (execute_code cpython (JString src_assign) (JString src_assert2_msg) process_start) =
     Some (Return \<lparr>passed = False, error = Some ''bad x'',
                   error_type = Some ''assertion'', output = [], test_output = []\<rparr>) \<and>
   map_option fst
     (execute_code cpython (JString src_assign) (JString src_assert2) process_start) =
     Some (Return \<lparr>passed = False, error = Some ''Assertion failed'',
                   error_type = Some ''assertion'', output = [], test_output = []\<rparr>)"
proof -
  let ?w1 = "(new_buffers process_start)
               \<lparr>sig_handler := Some Timeout_handler, sig_alarm := Some TIMEOUT_SECONDS\<rparr>"
  let ?ns = "[''__builtins__'' \<mapsto> builtins cpython]"
  let ?ns1 = "?ns(''x'' \<mapsto> IntObj 1)"
  have armed: "set_timeout (new_buffers process_start) = (None, ?w1)"
    by (simp add: executor_defs sample_runtime)
  have assign:
    "py_exec cpython (JString src_assign) ?ns ?w1 = finished ?w1 (Returned ?ns1)"
    by (simp add: executor_defs sample_runtime)
  have returned: "ending (finished ?w1 (Returned ?ns1)) = Returned ?ns1"
    by (simp add: finished_def)
  have with_msg:
    "py_exec cpython (JString src_assert2_msg) ?ns1
       (world_after (finished ?w1 (Returned ?ns1))) =
     finished ?w1 (Raised (new_AssertionError (Some ''bad x'')))"
    by (simp add: executor_defs sample_runtime)
  have without_msg:
    "py_exec cpython (JString src_assert2) ?ns1
       (world_after (finished ?w1 (Returned ?ns1))) =
     finished ?w1 (Raised (new_AssertionError None))"
    by (simp add: executor_defs sample_runtime)
  have raised: "ending (finished ?w1 (Raised (new_AssertionError m))) =
                  Raised (new_AssertionError m)" for m
    by (simp add: finished_def)
  have untouched:
    "result_after (finished ?w1 (Raised (new_AssertionError m)))
       (result_after (finished ?w1 (Returned ?ns1)) initial_result) = initial_result" for m
    by (simp add: finished_def)
  have left:
    "with_exit (world_after (finished ?w1 (Raised (new_AssertionError m))))
       (Some (new_AssertionError m)) = Some (new_AssertionError m)" for m
    by (simp add: executor_defs sample_runtime)
  have clauses:
    "builtin_clauses (world_after (finished ?w1 (Raised (new_AssertionError m))))
       (new_AssertionError m)" for m
    by (simp add: builtin_clauses_def executor_defs sample_runtime)
  have str:
    "py_str (world_after (finished ?w1 (Raised (new_AssertionError m))))
       (new_AssertionError m) = Inr (exc_str (new_AssertionError m))" for m
    by (simp add: executor_defs sample_runtime)
  have clear:
    "clear_timeout (world_after (finished ?w1 (Raised (new_AssertionError m)))) =
       (None, ?w1\<lparr>sig_alarm := None\<rparr>)" for m
    by (simp add: executor_defs sample_runtime)
  have read: "stderr_getvalue (?w1\<lparr>sig_alarm := None\<rparr>) = Inr []"
    by (simp add: executor_defs sample_runtime)
  show ?thesis
    using
      assertion_classification
        [OF cpython_quiet armed assign returned with_msg raised untouched left clauses str
          clear read]
      assertion_classification
        [OF cpython_quiet armed assign returned without_msg raised untouched left clauses
          str clear read]
    by simp
qed

text \<open>
  C7, as stated, fails: the assertion \<^verbatim>\<open>assert x == 2, ""\<close> carries a message, the empty
  string, and \<open>error\<close> is not that message but \<open>Assertion failed\<close>. And after code
  that binds the name \<^verbatim>\<open>AssertionError\<close> to \<^verbatim>\<open>KeyError\<close>, the clause of line 58 does not
  match the failing assertion of the test: the tag is \<open>runtime\<close>.
\<close>

theorem assertion_classification_counterexample:
  "ending (py_exec cpython (JString src_assert2_empty)
             ((fresh_namespace cpython)(''x'' \<mapsto> IntObj 1))
             (snd (set_timeout (new_buffers process_start)))) =
     Raised (new_AssertionError (Some [])) \<and>
   map_option fst
     (execute_code cpython (JString src_assign) (JString src_assert2_empty)
        process_start) =
     Some (Return \<lparr>passed = False, error = Some ''Assertion failed'',
                   error_type = Some ''assertion'', output = [], test_output = []\<rparr>) \<and>
   ending (py_exec cpython (JString src_assert2)
             ((fresh_namespace cpython)
                (''builtins'' \<mapsto> ModuleObj ''builtins'', ''x'' \<mapsto> IntObj 1))
             (world_after
                (py_exec cpython (JString src_rebind) (fresh_namespace cpython)
                   (snd (set_timeout (new_buffers process_start)))))) =
     Raised (new_AssertionError None) \<and>
   map_option fst
     (execute_code cpython (JString src_rebind) (JString src_assert2) process_start) =
     Some (Return \<lparr>passed = False,
                   error = Some (traceback_of (new_AssertionError None)),
                   error_type = Some ''runtime'', output = [], test_output = []\<rparr>)"
  by (simp add: execute_code_def executor_defs sample_runtime new_AssertionError_def
      cong del: if_weak_cong)







text \<open>
  C9, as amended. When \<^verbatim>\<open>json.loads\<close> rejects the text read from standard input with a
  \<^verbatim>\<open>JSONDecodeError\<close>, \<open>main\<close> prints exactly one JSON object, with the three keys
  \<open>passed\<close> (false), \<open>error\<close> (\<open>Invalid JSON input: \<close> followed by the detail of the
  parser) and \<open>error_type\<close> (\<open>input\<close>), without \<open>output\<close> and \<open>test_output\<close>, and
  returns normally. When \<^verbatim>\<open>json.loads\<close> raises another exception (a \<^verbatim>\<open>RecursionError\<close> on
  deeply nested brackets, say), the one object printed has \<open>error_type\<close> \<open>executor\<close>;
  an exception that is no instance of \<^verbatim>\<open>Exception\<close> leaves \<open>main\<close> with nothing
  printed.
\<close>

theorem malformed_json_response:
  assumes "json_loads py stdin = Inl e"
  shows "(isinstance e JSONDecodeError \<longrightarrow>
            main py stdin s0 =
              Some ([JObject [(''passed'', JBool False),
                              (''error'', JString (''Invalid JSON input: '' @ exc_str e)),
                              (''error_type'', JString ''input'')]],
                    Return ())) \<and>
         (\<not> isinstance e JSONDecodeError \<longrightarrow> isinstance e Exception \<longrightarrow>
            main py stdin s0 =
              Some ([JObject [(''passed'', JBool False),
                              (''error'', JString (exc_str e)),
                              (''error_type'', JString ''executor'')]],
                    Return ())) \<and>
         (\<not> isinstance e JSONDecodeError \<longrightarrow> \<not> isinstance e Exception \<longrightarrow>
            main py stdin s0 = Some ([], Propagate e))"
  using assms by (simp add: main_def main_except_def)

theorem malformed_json_response_witness:
  "\<not> well_formed_json json_not_json \<and>
   main cpython json_not_json process_start =
     Some ([JObject [(''passed'', JBool False),
                     (''error'', JString (''Invalid JSON input: '' @
                                           ''Expecting value: line 1 column 1 (char 0)'')),
                     (''error_type'', JString ''input'')]],
           Return ())"
proof -
  have rejected:
    "json_loads cpython json_not_json =
       Inl (new_JSONDecodeError ''Expecting value: line 1 column 1 (char 0)'')"
    by (simp add: sample_runtime)
  have decode_error:
    "isinstance (new_JSONDecodeError ''Expecting value: line 1 column 1 (char 0)'')
       JSONDecodeError"
    by (simp add: isinstance_def new_JSONDecodeError_def)
  have malformed: "\<not> well_formed_json json_not_json"
    by (simp add: well_formed_json_def json_not_json_def json_ws_def json_number_def
        is_digit_def eval_nat_numeral)
  show ?thesis
    using malformed_json_response [OF rejected, of process_start] decode_error malformed
    by (simp add: new_JSONDecodeError_def)
qed

text \<open>
  C9, as stated, fails: the payload \<^verbatim>\<open>NaN\<close> is not well-formed JSON, but \<^verbatim>\<open>json.loads\<close>
  accepts it as a float; the lookup of \<^verbatim>\<open>get\<close> then fails and the response has
  \<open>error_type\<close> \<open>executor\<close>, not \<open>input\<close>.
\<close>

theorem malformed_json_response_counterexample:
  "\<not> well_formed_json json_nan \<and>
   main cpython json_nan process_start =
     Some ([JObject [(''passed'', JBool False),
                     (''error'',
                      JString (quoted ''float'' @ '' object has no attribute '' @
                               quoted ''get'')),
                     (''error_type'', JString ''executor'')]],
           Return ())"
  by (simp add: well_formed_json_def json_nan_def json_ws_def json_number_def
      is_digit_def eval_nat_numeral main_def py_get_def main_except_def
      new_AttributeError_def isinstance_def cpython_def sample_loads_def
      json_array_def json_empty_object_def)





end
